theory Spec2Isabelle
  imports Main
begin

section \<open>Python string primitives used by the program\<close>

text \<open>
  A Python \<open>str\<close> is modelled as a \<open>string\<close>; a \<open>char\<close> stands for a code point
  below 256. A file holds its text as it is stored; decoding is not modelled. Reading
  in text mode translates line ends (\<open>universal_newlines\<close> below); writing and copying
  store the text as it is, as on the POSIX systems the program is written for.
\<close>

text \<open>\<open>str.isspace\<close> on one character: the white space code points below 256.\<close>

definition py_isspace :: "char \<Rightarrow> bool" where
  "py_isspace c = (c \<in> set [CHR 0x09, CHR 0x0A, CHR 0x0B, CHR 0x0C, CHR 0x0D,
                            CHR 0x1C, CHR 0x1D, CHR 0x1E, CHR 0x1F, CHR 0x20,
                            CHR 0x85, CHR 0xA0])"

text \<open>\<open>s.strip()\<close>: white space removed at both ends.\<close>

definition py_strip :: "string \<Rightarrow> string" where
  "py_strip s = rev (dropWhile py_isspace (rev (dropWhile py_isspace s)))"

text \<open>\<open>s.startswith(p)\<close>.\<close>

definition startswith :: "string \<Rightarrow> string \<Rightarrow> bool" where
  "startswith s p = (take (length p) s = p)"

text \<open>\<open>p in s\<close> on strings: \<open>p\<close> occurs in \<open>s\<close> as a contiguous substring.\<close>

fun py_in :: "string \<Rightarrow> string \<Rightarrow> bool" where
  "py_in p [] = (p = [])"
| "py_in p (c # cs) = (startswith (c # cs) p \<or> py_in p cs)"

text \<open>
  \<open>s.lower()\<close>. Only the ASCII letters are mapped; the program compares lowered
  strings with ASCII literals only, and no other code point lowers to an ASCII letter
  occurring in those literals.
\<close>

definition py_lower_char :: "char \<Rightarrow> char" where
  "py_lower_char c =
     (case map_of (zip ''ABCDEFGHIJKLMNOPQRSTUVWXYZ'' ''abcdefghijklmnopqrstuvwxyz'') c of
        None \<Rightarrow> c | Some d \<Rightarrow> d)"

definition py_lower :: "string \<Rightarrow> string" where
  "py_lower s = map py_lower_char s"

text \<open>\<open>s.split()\<close>: the maximal runs of non-space characters, in order. The first
  argument is the word being collected.\<close>

fun split_ws :: "string \<Rightarrow> string \<Rightarrow> string list" where
  "split_ws w [] = (if w = [] then [] else [w])"
| "split_ws w (c # cs) =
     (if py_isspace c then (if w = [] then split_ws [] cs else w # split_ws [] cs)
      else split_ws (w @ [c]) cs)"

definition py_split :: "string \<Rightarrow> string list" where
  "py_split s = split_ws [] s"

text \<open>\<open>s.split(d)\<close> for a one-character separator: empty fields are kept.\<close>

fun split_on :: "char \<Rightarrow> string \<Rightarrow> string \<Rightarrow> string list" where
  "split_on d w [] = [w]"
| "split_on d w (c # cs) =
     (if c = d then w # split_on d [] cs else split_on d (w @ [c]) cs)"

text \<open>\<open>s.split(d, 1)[1]\<close>: what follows the first \<open>d\<close>. The program calls it only on
  a string that starts with \<open>credentials=\<close>, so the index is in range.\<close>

definition after_first :: "char \<Rightarrow> string \<Rightarrow> string" where
  "after_first d s = tl (dropWhile (\<lambda>c. c \<noteq> d) s)"

text \<open>\<open>s.replace(a, b)\<close> for one-character \<open>a\<close> and \<open>b\<close>.\<close>

definition replace_char :: "char \<Rightarrow> char \<Rightarrow> string \<Rightarrow> string" where
  "replace_char a b s = map (\<lambda>c. if c = a then b else c) s"

text \<open>
  Reading a file opened in text mode with the default \<open>newline=None\<close>: a carriage
  return followed by a line feed, and a carriage return alone, are handed to the program
  as one line feed.
\<close>

fun universal_newlines :: "string \<Rightarrow> string" where
  "universal_newlines [] = []"
| "universal_newlines [c] = (if c = CHR 0x0D then [CHR 0x0A] else [c])"
| "universal_newlines (c # d # cs) =
     (if c = CHR 0x0D
      then (if d = CHR 0x0A then CHR 0x0A # universal_newlines cs
            else CHR 0x0A # universal_newlines (d # cs))
      else c # universal_newlines (d # cs))"

text \<open>The translated text cut after every line feed: the lines, each with its line
  feed; a last line without one is kept as it is. The first argument is the line being
  collected.\<close>

fun split_lines_from :: "string \<Rightarrow> string \<Rightarrow> string list" where
  "split_lines_from w [] = (if w = [] then [] else [w])"
| "split_lines_from w (c # cs) =
     (if c = CHR 0x0A then (w @ [c]) # split_lines_from [] cs
      else split_lines_from (w @ [c]) cs)"

text \<open>\<open>f.readlines()\<close> and iteration over a file opened in text mode, applied to the
  stored text of the file.\<close>

definition readlines :: "string \<Rightarrow> string list" where
  "readlines s = split_lines_from [] (universal_newlines s)"

text \<open>\<open>os.path.join(a, b)\<close> on POSIX.\<close>

definition os_path_join :: "string \<Rightarrow> string \<Rightarrow> string" where
  "os_path_join a b =
     (if startswith b ''/'' then b
      else if a = [] \<or> last a = CHR ''/'' then a @ b
      else a @ ''/'' @ b)"

section \<open>Time stamps\<close>

record datetime =
  year :: nat
  month :: nat
  day :: nat
  hour :: nat
  minute :: nat
  second :: nat
  microsecond :: nat

definition digit_char :: "nat \<Rightarrow> char" where
  "digit_char d = (''0123456789'' ! (d mod 10))"

fun decimal :: "nat \<Rightarrow> string" where
  "decimal n = (if n < 10 then [digit_char n] else decimal (n div 10) @ [digit_char n])"

declare decimal.simps [simp del]

text \<open>\<open>%0kd\<close>: decimal, padded with zeros on the left to width \<open>k\<close>.\<close>

definition zero_pad :: "nat \<Rightarrow> nat \<Rightarrow> string" where
  "zero_pad k n = replicate (k - length (decimal n)) CHR ''0'' @ decimal n"

text \<open>\<open>dt.strftime("%Y%m%d_%H%M%S")\<close>.\<close>

definition strftime_backup :: "datetime \<Rightarrow> string" where
  "strftime_backup dt =
     zero_pad 4 (year dt) @ zero_pad 2 (month dt) @ zero_pad 2 (day dt) @ ''_'' @
     zero_pad 2 (hour dt) @ zero_pad 2 (minute dt) @ zero_pad 2 (second dt)"

text \<open>\<open>str(dt)\<close>: ISO format with a space; the fraction is left out when it is zero.\<close>

definition str_datetime :: "datetime \<Rightarrow> string" where
  "str_datetime dt =
     zero_pad 4 (year dt) @ ''-'' @ zero_pad 2 (month dt) @ ''-'' @ zero_pad 2 (day dt) @
     '' '' @ zero_pad 2 (hour dt) @ '':'' @ zero_pad 2 (minute dt) @ '':'' @
     zero_pad 2 (second dt) @
     (if microsecond dt = 0 then [] else ''.'' @ zero_pad 6 (microsecond dt))"

section \<open>The environment: files, permissions, clock\<close>

text \<open>
  All state of the program lives in the file system. \<open>files\<close> maps the path of a
  regular file to its text, \<open>modes\<close> holds the permission bits set by \<open>chmod\<close> or
  copied by \<open>copy2\<close>, \<open>dirs\<close> the directories made by the program. Whether the
  operating system lets the process write a file or make a directory is not decided by
  the program: \<open>can_write\<close> and \<open>mkdir_ok\<close> say what the system answers. \<open>now\<close> is the
  clock, and \<open>CREDENTIALS_DIR\<close> the global of that name, which the start-up code may
  redirect.
\<close>

record env =
  files :: "string \<rightharpoonup> string"
  modes :: "string \<rightharpoonup> nat"
  dirs :: "string set"
  can_write :: "string \<Rightarrow> bool"
  mkdir_ok :: "string \<Rightarrow> bool"
  now :: datetime
  CREDENTIALS_DIR :: string

definition SMB_CONF :: string where "SMB_CONF = ''/etc/samba/smb.conf''"
definition BACKUP_DIR :: string where "BACKUP_DIR = ''/etc/samba/backups''"
definition FSTAB :: string where "FSTAB = ''/etc/fstab''"
definition PROC_MOUNTS :: string where "PROC_MOUNTS = ''/proc/mounts''"

datatype py_exn =
    FileNotFoundError | PermissionError | SameFileError
  | ValueError | DuplicateSectionError | NoSectionError | AttributeError | ParsingError

text \<open>\<open>shutil.copy2(src, dst)\<close>: the text and the permission bits of \<open>src\<close> are
  copied to \<open>dst\<close>, which is replaced.\<close>

definition copy2 :: "string \<Rightarrow> string \<Rightarrow> env \<Rightarrow> py_exn + env" where
  "copy2 src dst e =
     (case files e src of
        None \<Rightarrow> Inl FileNotFoundError
      | Some c \<Rightarrow>
          if src = dst then Inl SameFileError
          else if \<not> can_write e dst then Inl PermissionError
          else Inr (e\<lparr>files := (files e)(dst \<mapsto> c), modes := (modes e)(dst := modes e src)\<rparr>))"

section \<open>MountManager\<close>

record cifs_mount =
  remote :: string
  mountpoint :: string
  fstype :: string
  options :: string
  credentials_file :: "string option"
  is_mounted :: bool

definition network_fstypes :: "string list" where
  "network_fstypes = [''cifs'', ''smb'', ''smb3'', ''smb2'', ''smbfs'']"

text \<open>The loop of \<open>get_active_mounts\<close> over the lines of the live mount table.\<close>

fun active_loop :: "(string \<rightharpoonup> bool) \<Rightarrow> string list \<Rightarrow> (string \<rightharpoonup> bool)" where
  "active_loop active [] = active"
| "active_loop active (line # rest) =
     (let parts = py_split line in
      if 3 \<le> length parts \<and> py_lower (parts ! 2) \<in> set network_fstypes
      then active_loop (active(parts ! 1 \<mapsto> True)) rest
      else active_loop active rest)"

text \<open>A file that cannot be opened raises inside the \<open>try\<close>; the empty dictionary is
  returned.\<close>

definition get_active_mounts :: "env \<Rightarrow> (string \<rightharpoonup> bool)" where
  "get_active_mounts e =
     (case files e PROC_MOUNTS of
        None \<Rightarrow> Map.empty
      | Some c \<Rightarrow> active_loop Map.empty (readlines c))"

text \<open>The inner loop over the comma-separated options, with its \<open>break\<close>.\<close>

fun find_credentials :: "string list \<Rightarrow> string option" where
  "find_credentials [] = None"
| "find_credentials (opt # opts) =
     (if startswith opt ''credentials='' then Some (after_first CHR ''='' opt)
      else find_credentials opts)"

fun fstab_loop :: "(string \<rightharpoonup> bool) \<Rightarrow> string list \<Rightarrow> cifs_mount list" where
  "fstab_loop active [] = []"
| "fstab_loop active (raw # rest) =
     (let line = py_strip raw in
      if line = [] \<or> startswith line ''#'' then fstab_loop active rest
      else
        let parts = py_split line in
        if 4 \<le> length parts \<and> py_lower (parts ! 2) \<in> set network_fstypes
        then
          (let creds_file =
                 (if py_in ''credentials='' (parts ! 3)
                  then find_credentials (split_on CHR '','' [] (parts ! 3))
                  else None)
           in \<lparr>remote = parts ! 0, mountpoint = parts ! 1, fstype = parts ! 2,
                options = parts ! 3, credentials_file = creds_file,
                is_mounted = (parts ! 1 \<in> dom active)\<rparr> # fstab_loop active rest)
        else fstab_loop active rest)"

definition get_fstab_mounts :: "env \<Rightarrow> cifs_mount list" where
  "get_fstab_mounts e =
     (let active = get_active_mounts e in
      case files e FSTAB of
        None \<Rightarrow> []
      | Some c \<Rightarrow> fstab_loop active (readlines c))"

datatype mount_msg =
    MountAdded | MountRemoved | ErrorAddingMount py_exn | ErrorRemovingMount py_exn

text \<open>\<open>Path(p).mkdir(parents=True, exist_ok=True)\<close>.\<close>

definition mkdir_p :: "string \<Rightarrow> env \<Rightarrow> py_exn + env" where
  "mkdir_p p e = (if mkdir_ok e p then Inr (e\<lparr>dirs := insert p (dirs e)\<rparr>) else Inl PermissionError)"

text \<open>\<open>open(p, 'w')\<close>, one or more \<open>write\<close>s making up \<open>c\<close>, and close.\<close>

definition write_file :: "string \<Rightarrow> string \<Rightarrow> env \<Rightarrow> py_exn + env" where
  "write_file p c e =
     (if can_write e p then Inr (e\<lparr>files := (files e)(p \<mapsto> c)\<rparr>) else Inl PermissionError)"

text \<open>\<open>open(p, 'a')\<close>, the \<open>write\<close>s making up \<open>c\<close>, and close; a missing file is made.\<close>

definition append_file :: "string \<Rightarrow> string \<Rightarrow> env \<Rightarrow> py_exn + env" where
  "append_file p c e =
     (if can_write e p
      then Inr (e\<lparr>files := (files e)(p \<mapsto> (case files e p of None \<Rightarrow> c | Some old \<Rightarrow> old @ c))\<rparr>)
      else Inl PermissionError)"

definition chmod :: "string \<Rightarrow> nat \<Rightarrow> env \<Rightarrow> env" where
  "chmod p m e = e\<lparr>modes := (modes e)(p \<mapsto> m)\<rparr>"

definition creds_path :: "env \<Rightarrow> string \<Rightarrow> string" where
  "creds_path e mp =
     os_path_join (CREDENTIALS_DIR e) (''creds_'' @ replace_char CHR ''/'' CHR ''_'' mp @ ''.txt'')"

text \<open>The credentials block of \<open>add_mount\<close>: the file is written and restricted to
  mode \<open>0o600\<close> (384), and the option is added.\<close>

definition handle_credentials ::
  "string \<Rightarrow> string \<Rightarrow> string \<Rightarrow> string \<Rightarrow> env \<Rightarrow> py_exn + (string \<times> env)" where
  "handle_credentials mp username password opts e =
     (if username \<noteq> [] \<and> password \<noteq> [] then
        (let creds_file = creds_path e mp in
         case write_file creds_file (''username='' @ username @ [CHR 0x0A] @
                                     ''password='' @ password @ [CHR 0x0A]) e of
           Inl x \<Rightarrow> Inl x
         | Inr e1 \<Rightarrow>
             Inr (if opts \<noteq> [] then opts @ '',credentials='' @ creds_file
                  else ''credentials='' @ creds_file,
                  chmod creds_file 384 e1))
      else Inr (opts, e))"

definition default_options :: "string \<Rightarrow> string" where
  "default_options opts =
     (if opts = [] then ''_netdev,nofail''
      else if \<not> py_in ''_netdev'' opts then opts @ '',_netdev,nofail''
      else opts)"

text \<open>The two \<open>write\<close>s that append to the mount table: the provenance comment, after
  a line feed, and the entry itself.\<close>

definition provenance_text :: "datetime \<Rightarrow> string" where
  "provenance_text t =
     [CHR 0x0A] @ ''# Added by Samba Control Center - '' @ str_datetime t @ [CHR 0x0A]"

definition entry_text :: "string \<Rightarrow> string \<Rightarrow> string \<Rightarrow> string \<Rightarrow> string" where
  "entry_text rmt mp fty opts =
     rmt @ [CHR 0x09] @ mp @ [CHR 0x09] @ fty @ [CHR 0x09] @ opts @ [CHR 0x09] @ ''0 0'' @
     [CHR 0x0A]"

definition fstab_entry :: "datetime \<Rightarrow> string \<Rightarrow> string \<Rightarrow> string \<Rightarrow> string \<Rightarrow> string" where
  "fstab_entry t rmt mp fty opts = provenance_text t @ entry_text rmt mp fty opts"

text \<open>\<open>add_mount\<close>: an exception anywhere leaves what was done before it and returns
  \<open>False\<close> with a message.\<close>

definition add_mount ::
  "string \<Rightarrow> string \<Rightarrow> string \<Rightarrow> string \<Rightarrow> string \<Rightarrow> string \<Rightarrow> env \<Rightarrow> (bool \<times> mount_msg) \<times> env" where
  "add_mount rmt mp fty username password opts e =
     (case mkdir_p mp e of
        Inl x \<Rightarrow> ((False, ErrorAddingMount x), e)
      | Inr e1 \<Rightarrow>
     (case handle_credentials mp username password opts e1 of
        Inl x \<Rightarrow> ((False, ErrorAddingMount x), e1)
      | Inr (opts1, e2) \<Rightarrow>
     (let opts2 = default_options opts1 in
      case copy2 FSTAB (FSTAB @ ''.bak'') e2 of
        Inl x \<Rightarrow> ((False, ErrorAddingMount x), e2)
      | Inr e3 \<Rightarrow>
     (case append_file FSTAB (fstab_entry (now e3) rmt mp fty opts2) e3 of
        Inl x \<Rightarrow> ((False, ErrorAddingMount x), e3)
      | Inr e4 \<Rightarrow> ((True, MountAdded), e4)))))"



section \<open>The configuration parser\<close>

text \<open>
  The state of a \<open>configparser.ConfigParser\<close> made with \<open>allow_no_value=True\<close>,
  \<open>strict=False\<close> and \<open>interpolation=None\<close>: the \<open>DEFAULT\<close> section and the other
  sections in file order, each an insertion-ordered dictionary from option name to
  value. A value is \<open>None\<close> for an option written without a delimiter.
\<close>

type_synonym options_dict = "(string \<times> string option) list"

record config_parser =
  cp_defaults :: options_dict
  cp_sections :: "(string \<times> options_dict) list"

definition new_parser :: config_parser where
  "new_parser = \<lparr>cp_defaults = [], cp_sections = []\<rparr>"

text \<open>\<open>d[k] = v\<close> on an insertion-ordered dictionary.\<close>

fun dict_set :: "('k \<times> 'v) list \<Rightarrow> 'k \<Rightarrow> 'v \<Rightarrow> ('k \<times> 'v) list" where
  "dict_set [] k v = [(k, v)]"
| "dict_set (kv # kvs) k v = (if fst kv = k then (k, v) # kvs else kv # dict_set kvs k v)"

definition parser_sections :: "config_parser \<Rightarrow> string list" where
  "parser_sections p = map fst (cp_sections p)"

definition has_section :: "config_parser \<Rightarrow> string \<Rightarrow> bool" where
  "has_section p nm = (nm \<in> set (map fst (cp_sections p)))"

definition add_section :: "config_parser \<Rightarrow> string \<Rightarrow> py_exn + config_parser" where
  "add_section p nm =
     (if nm = ''DEFAULT'' then Inl ValueError
      else if has_section p nm then Inl DuplicateSectionError
      else Inr (p\<lparr>cp_sections := cp_sections p @ [(nm, [])]\<rparr>))"

text \<open>\<open>parser.set(section, option, value)\<close>; the option name goes through
  \<open>optionxform\<close>, which lowers it. An empty section name addresses the defaults.\<close>

definition parser_set ::
  "config_parser \<Rightarrow> string \<Rightarrow> string \<Rightarrow> string option \<Rightarrow> py_exn + config_parser" where
  "parser_set p sect opt v =
     (if sect = [] \<or> sect = ''DEFAULT''
      then Inr (p\<lparr>cp_defaults := dict_set (cp_defaults p) (py_lower opt) v\<rparr>)
      else case map_of (cp_sections p) sect of
             None \<Rightarrow> Inl NoSectionError
           | Some d \<Rightarrow>
               Inr (p\<lparr>cp_sections := dict_set (cp_sections p) sect (dict_set d (py_lower opt) v)\<rparr>))"

text \<open>\<open>parser.get(section, option, fallback=fb)\<close>: the section's own value, else the
  value of the \<open>DEFAULT\<close> section, else the fallback. A value \<open>None\<close> is returned as
  it is.\<close>

definition parser_get ::
  "config_parser \<Rightarrow> string \<Rightarrow> string \<Rightarrow> string option \<Rightarrow> string option" where
  "parser_get p sect opt fb =
     (case (case map_of (cp_sections p) sect of
              Some d \<Rightarrow> Some d
            | None \<Rightarrow> if sect = ''DEFAULT'' then Some [] else None) of
        None \<Rightarrow> fb
      | Some d \<Rightarrow>
          (case map_of d (py_lower opt) of
             Some v \<Rightarrow> v
           | None \<Rightarrow> (case map_of (cp_defaults p) (py_lower opt) of Some v \<Rightarrow> v | None \<Rightarrow> fb)))"

definition remove_section :: "config_parser \<Rightarrow> string \<Rightarrow> config_parser" where
  "remove_section p nm = p\<lparr>cp_sections := filter (\<lambda>s. fst s \<noteq> nm) (cp_sections p)\<rparr>"

text \<open>\<open>parser.write(f, space_around_delimiters=True)\<close>.\<close>

definition write_value :: "string option \<Rightarrow> string" where
  "write_value v =
     (case v of
        None \<Rightarrow> []
      | Some s \<Rightarrow> '' = '' @ concat (map (\<lambda>c. if c = CHR 0x0A then [CHR 0x0A, CHR 0x09] else [c]) s))"

definition write_section :: "string \<Rightarrow> options_dict \<Rightarrow> string" where
  "write_section nm items =
     ''['' @ nm @ '']'' @ [CHR 0x0A] @
     concat (map (\<lambda>kv. fst kv @ write_value (snd kv) @ [CHR 0x0A]) items) @ [CHR 0x0A]"

definition parser_write :: "config_parser \<Rightarrow> string" where
  "parser_write p =
     (if cp_defaults p \<noteq> [] then write_section ''DEFAULT'' (cp_defaults p) else []) @
     concat (map (\<lambda>s. write_section (fst s) (snd s)) (cp_sections p))"

section \<open>SambaConfig\<close>

text \<open>The fields typed \<open>str\<close> that \<open>get_shares\<close> fills straight from the parser are
  \<open>None\<close> when the option has no value.\<close>

record samba_share =
  name :: string
  path :: "string option"
  comment :: "string option"
  writable :: bool
  browseable :: bool
  guest_ok :: bool
  valid_users :: "string option"
  create_mask :: "string option"
  directory_mask :: "string option"

datatype config_error =
    ConfigNotFound string | LoadFailed py_exn | SaveFailed py_exn
  | ShareExists string | ShareNotFound string | AddFailed py_exn | DeleteFailed py_exn

record samba_config =
  config_path :: string
  parser :: "config_parser option"
  error :: "config_error option"

text \<open>
  \<open>load\<close>. Parsing the text read from the file is the library's \<open>read_file\<close>; it is
  a parameter here: it returns what the parser holds after reading, and the exception if
  one was raised.
\<close>

definition load ::
  "(string \<Rightarrow> config_parser \<times> py_exn option) \<Rightarrow> samba_config \<Rightarrow> env \<Rightarrow> bool \<times> samba_config" where
  "load read_file sc e =
     (case files e (config_path sc) of
        None \<Rightarrow> (False, sc\<lparr>parser := Some new_parser,
                              error := Some (ConfigNotFound (config_path sc))\<rparr>)
      | Some c \<Rightarrow>
          (case read_file (universal_newlines c) of
             (p, None) \<Rightarrow> (True, sc\<lparr>parser := Some p\<rparr>)
           | (p, Some x) \<Rightarrow> (False, sc\<lparr>parser := Some p, error := Some (LoadFailed x)\<rparr>)))"

text \<open>\<open>if not self.parser: self.load()\<close>; a parser object is never falsy.\<close>

definition loaded ::
  "(string \<Rightarrow> config_parser \<times> py_exn option) \<Rightarrow> samba_config \<Rightarrow> env \<Rightarrow> samba_config" where
  "loaded read_file sc e = (if parser sc = None then snd (load read_file sc e) else sc)"

definition backup_path :: "datetime \<Rightarrow> string" where
  "backup_path t = os_path_join BACKUP_DIR (''smb.conf.'' @ strftime_backup t @ ''.bak'')"

definition create_backup :: "samba_config \<Rightarrow> env \<Rightarrow> py_exn + (string option \<times> env)" where
  "create_backup sc e =
     (if files e (config_path sc) = None then Inr (None, e)
      else case copy2 (config_path sc) (backup_path (now e)) e of
             Inl x \<Rightarrow> Inl x
           | Inr e1 \<Rightarrow> Inr (Some (backup_path (now e)), e1))"

text \<open>\<open>save\<close>: the backup, then the file is opened for writing (and so emptied), then
  the parser writes into it.\<close>

definition save :: "samba_config \<Rightarrow> env \<Rightarrow> bool \<times> samba_config \<times> env" where
  "save sc e =
     (case create_backup sc e of
        Inl x \<Rightarrow> (False, sc\<lparr>error := Some (SaveFailed x)\<rparr>, e)
      | Inr be \<Rightarrow>
          (let e1 = snd be in
           if \<not> can_write e1 (config_path sc)
           then (False, sc\<lparr>error := Some (SaveFailed PermissionError)\<rparr>, e1)
           else (case parser sc of
                   None \<Rightarrow> (False, sc\<lparr>error := Some (SaveFailed AttributeError)\<rparr>,
                             e1\<lparr>files := (files e1)(config_path sc \<mapsto> [])\<rparr>)
                 | Some p \<Rightarrow>
                     (True, sc, e1\<lparr>files := (files e1)(config_path sc \<mapsto> parser_write p)\<rparr>))))"

text \<open>\<open>parser.get(...).lower() == 'yes'\<close>: \<open>None\<close> has no \<open>lower\<close>.\<close>

definition get_flag :: "config_parser \<Rightarrow> string \<Rightarrow> string \<Rightarrow> string \<Rightarrow> py_exn + bool" where
  "get_flag p sect opt fb =
     (case parser_get p sect opt (Some fb) of
        None \<Rightarrow> Inl AttributeError
      | Some v \<Rightarrow> Inr (py_lower v = ''yes''))"

fun shares_loop :: "config_parser \<Rightarrow> string list \<Rightarrow> py_exn + samba_share list" where
  "shares_loop p [] = Inr []"
| "shares_loop p (sect # rest) =
     (if py_lower sect \<noteq> ''global'' then
        (case get_flag p sect ''writable'' ''yes'' of
           Inl x \<Rightarrow> Inl x
         | Inr w \<Rightarrow>
        (case get_flag p sect ''browseable'' ''yes'' of
           Inl x \<Rightarrow> Inl x
         | Inr b \<Rightarrow>
        (case get_flag p sect ''guest ok'' ''no'' of
           Inl x \<Rightarrow> Inl x
         | Inr g \<Rightarrow>
        (case shares_loop p rest of
           Inl x \<Rightarrow> Inl x
         | Inr shares \<Rightarrow>
             Inr (\<lparr>name = sect,
                   path = parser_get p sect ''path'' (Some []),
                   comment = parser_get p sect ''comment'' (Some []),
                   writable = w, browseable = b, guest_ok = g,
                   valid_users = parser_get p sect ''valid users'' (Some []),
                   create_mask = parser_get p sect ''create mask'' (Some ''0664''),
                   directory_mask = parser_get p sect ''directory mask'' (Some ''0775'')\<rparr>
                  # shares)))))
      else shares_loop p rest)"

text \<open>\<open>get_shares\<close> catches nothing: an exception leaves the method.\<close>

definition get_shares ::
  "(string \<Rightarrow> config_parser \<times> py_exn option) \<Rightarrow> samba_config \<Rightarrow> env \<Rightarrow>
     (py_exn + samba_share list) \<times> samba_config" where
  "get_shares read_file sc e =
     (let sc1 = loaded read_file sc e in
      case parser sc1 of
        None \<Rightarrow> (Inl AttributeError, sc1)
      | Some p \<Rightarrow> (shares_loop p (parser_sections p), sc1))"

definition yes_no :: "bool \<Rightarrow> string option" where
  "yes_no b = Some (if b then ''yes'' else ''no'')"

text \<open>Truth value of a string or \<open>None\<close>.\<close>

definition truthy :: "string option \<Rightarrow> bool" where
  "truthy v = (case v of None \<Rightarrow> False | Some s \<Rightarrow> s \<noteq> [])"

text \<open>The \<open>set\<close> calls of \<open>add_share\<close>, in their order.\<close>

definition share_options :: "samba_share \<Rightarrow> options_dict" where
  "share_options share =
     [(''path'', path share),
      (''writable'', yes_no (writable share)),
      (''browseable'', yes_no (browseable share)),
      (''guest ok'', yes_no (guest_ok share))] @
     (if truthy (comment share) then [(''comment'', comment share)] else []) @
     (if truthy (valid_users share) then [(''valid users'', valid_users share)] else []) @
     [(''create mask'', create_mask share),
      (''directory mask'', directory_mask share)]"

text \<open>A run of \<open>set\<close> calls; an exception stops it and leaves the parser as it is then.\<close>

fun set_options :: "config_parser \<Rightarrow> string \<Rightarrow> options_dict \<Rightarrow> config_parser \<times> py_exn option" where
  "set_options p sect [] = (p, None)"
| "set_options p sect (kv # kvs) =
     (case parser_set p sect (fst kv) (snd kv) of
        Inl x \<Rightarrow> (p, Some x)
      | Inr p1 \<Rightarrow> set_options p1 sect kvs)"

definition add_share ::
  "(string \<Rightarrow> config_parser \<times> py_exn option) \<Rightarrow> samba_config \<Rightarrow> samba_share \<Rightarrow> env \<Rightarrow>
     bool \<times> samba_config \<times> env" where
  "add_share read_file sc share e =
     (let sc1 = loaded read_file sc e in
      case parser sc1 of
        None \<Rightarrow> (False, sc1\<lparr>error := Some (AddFailed AttributeError)\<rparr>, e)
      | Some p \<Rightarrow>
          if has_section p (name share)
          then (False, sc1\<lparr>error := Some (ShareExists (name share))\<rparr>, e)
          else (case add_section p (name share) of
                  Inl x \<Rightarrow> (False, sc1\<lparr>error := Some (AddFailed x)\<rparr>, e)
                | Inr p1 \<Rightarrow>
                    (let r = set_options p1 (name share) (share_options share) in
                     case snd r of
                       Some x \<Rightarrow>
                         (False, sc1\<lparr>parser := Some (fst r), error := Some (AddFailed x)\<rparr>, e)
                     | None \<Rightarrow> save (sc1\<lparr>parser := Some (fst r)\<rparr>) e)))"

definition delete_share ::
  "(string \<Rightarrow> config_parser \<times> py_exn option) \<Rightarrow> samba_config \<Rightarrow> string \<Rightarrow> env \<Rightarrow>
     bool \<times> samba_config \<times> env" where
  "delete_share read_file sc share_name e =
     (let sc1 = loaded read_file sc e in
      case parser sc1 of
        None \<Rightarrow> (False, sc1\<lparr>error := Some (DeleteFailed AttributeError)\<rparr>, e)
      | Some p \<Rightarrow>
          if \<not> has_section p share_name
          then (False, sc1\<lparr>error := Some (ShareNotFound share_name)\<rparr>, e)
          else save (sc1\<lparr>parser := Some (remove_section p share_name)\<rparr>) e)"

section \<open>Notions used to state the properties\<close>







text \<open>The options string that \<open>add_mount\<close> hands to its defaulting step, and the one
  it writes into the entry.\<close>

definition options_with_credentials ::
  "env \<Rightarrow> string \<Rightarrow> string \<Rightarrow> string \<Rightarrow> string \<Rightarrow> string" where
  "options_with_credentials e mp username password opts =
     (if username \<noteq> [] \<and> password \<noteq> []
      then (if opts \<noteq> [] then opts @ '',credentials='' @ creds_path e mp
            else ''credentials='' @ creds_path e mp)
      else opts)"

definition entry_options :: "env \<Rightarrow> string \<Rightarrow> string \<Rightarrow> string \<Rightarrow> string \<Rightarrow> string" where
  "entry_options e mp username password opts =
     default_options (options_with_credentials e mp username password opts)"


text \<open>
  Follows the spec's words for \<open>listShares\<close>: a field missing from the section takes
  the documented default.
\<close>

definition spec_field :: "options_dict \<Rightarrow> string \<Rightarrow> string \<Rightarrow> string option" where
  "spec_field d k dflt = (case map_of d k of None \<Rightarrow> Some dflt | Some v \<Rightarrow> v)"

definition spec_flag :: "options_dict \<Rightarrow> string \<Rightarrow> bool \<Rightarrow> bool" where
  "spec_flag d k dflt =
     (case map_of d k of
        None \<Rightarrow> dflt
      | Some v \<Rightarrow> (case v of None \<Rightarrow> False | Some t \<Rightarrow> py_lower t = ''yes''))"

definition spec_share :: "string \<times> options_dict \<Rightarrow> samba_share" where
  "spec_share s =
     \<lparr>name = fst s,
      path = spec_field (snd s) ''path'' [],
      comment = spec_field (snd s) ''comment'' [],
      writable = spec_flag (snd s) ''writable'' True,
      browseable = spec_flag (snd s) ''browseable'' True,
      guest_ok = spec_flag (snd s) ''guest ok'' False,
      valid_users = spec_field (snd s) ''valid users'' [],
      create_mask = spec_field (snd s) ''create mask'' ''0664'',
      directory_mask = spec_field (snd s) ''directory mask'' ''0775''\<rparr>"

definition spec_list_shares :: "config_parser \<Rightarrow> samba_share list" where
  "spec_list_shares p =
     map spec_share (filter (\<lambda>s. py_lower (fst s) \<noteq> ''global'') (cp_sections p))"

text \<open>The section names a \<open>SambaConfig\<close> object holds.\<close>

definition section_names :: "samba_config \<Rightarrow> string list" where
  "section_names sc = (case parser sc of None \<Rightarrow> [] | Some p \<Rightarrow> parser_sections p)"


text \<open>An environment in which every write succeeds, holding a mount table and a live
  mount table.\<close>

definition sample_time :: datetime where
  "sample_time = \<lparr>year = 2026, month = 1, day = 31, hour = 12, minute = 30, second = 5,
                   microsecond = 0\<rparr>"

definition sample_env :: "string \<Rightarrow> string \<Rightarrow> env" where
  "sample_env tab live =
     \<lparr>files = [FSTAB \<mapsto> tab, PROC_MOUNTS \<mapsto> live], modes = Map.empty, dirs = {},
      can_write = (\<lambda>p. True), mkdir_ok = (\<lambda>p. True), now = sample_time,
      CREDENTIALS_DIR = ''/etc/samba/credentials''\<rparr>"


text \<open>A mount table in which an entry is followed, two lines later, by the provenance
  comment of the next entry.\<close>

definition sample_tab :: string where
  "sample_tab =
     ''//s/a /mnt/x cifs rw 0 0\<newline>'' @
     ''# note\<newline>'' @
     ''# Added by Samba Control Center - 2026-01-31 12:00:00\<newline>'' @
     ''//s/b /mnt/y cifs rw 0 0\<newline>''"

text \<open>A parser state, a \<open>SambaConfig\<close> object holding it, an environment holding the
  configuration file, and a share as the request handler builds it.\<close>

definition sample_parser :: config_parser where
  "sample_parser =
     \<lparr>cp_defaults = [],
      cp_sections = [(''global'', [(''workgroup'', Some ''WORKGROUP'')]),
                     (''media'', [(''path'', Some ''/srv/media''), (''writable'', Some ''No'')])]\<rparr>"

definition sample_config :: samba_config where
  "sample_config = \<lparr>config_path = SMB_CONF, parser = Some sample_parser, error = None\<rparr>"

definition config_env :: "string \<Rightarrow> env" where
  "config_env c =
     \<lparr>files = [SMB_CONF \<mapsto> c], modes = Map.empty, dirs = {},
      can_write = (\<lambda>p. True), mkdir_ok = (\<lambda>p. True), now = sample_time,
      CREDENTIALS_DIR = ''/etc/samba/credentials''\<rparr>"

definition new_share :: "string \<Rightarrow> string \<Rightarrow> samba_share" where
  "new_share nm pth =
     \<lparr>name = nm, path = Some pth, comment = Some [], writable = True, browseable = True,
      guest_ok = False, valid_users = Some [], create_mask = Some ''0664'',
      directory_mask = Some ''0775''\<rparr>"

text \<open>A \<open>read_file\<close> for objects whose parser is already loaded.\<close>

definition no_read :: "string \<Rightarrow> config_parser \<times> py_exn option" where
  "no_read c = (new_parser, None)"

text \<open>A parser state with a value in the \<open>DEFAULT\<close> section.\<close>

definition defaults_parser :: config_parser where
  "defaults_parser =
     \<lparr>cp_defaults = [(''create mask'', Some ''0600'')],
      cp_sections = [(''docs'', [(''path'', Some ''/srv/docs'')])]\<rparr>"

section \<open>Properties of the string primitives\<close>









lemma startswith_iff: "startswith s p = (\<exists>v. s = p @ v)"
  unfolding startswith_def
  by (metis append_eq_conv_conj append_take_drop_id)

lemma py_in_iff: "py_in p s = (\<exists>u v. s = u @ p @ v)"
proof (induction s)
  case Nil
  then show ?case by simp
next
  case (Cons c cs)
  show ?case
  proof
    assume "py_in p (c # cs)"
    then consider "startswith (c # cs) p" | "py_in p cs" by auto
    then show "\<exists>u v. c # cs = u @ p @ v"
    proof cases
      case 1
      then obtain v where "c # cs = p @ v" by (auto simp add: startswith_iff)
      then have "c # cs = [] @ p @ v" by simp
      then show ?thesis by blast
    next
      case 2
      with Cons obtain u v where "cs = u @ p @ v" by auto
      then have "c # cs = (c # u) @ p @ v" by simp
      then show ?thesis by blast
    qed
  next
    assume "\<exists>u v. c # cs = u @ p @ v"
    then obtain u v where uv: "c # cs = u @ p @ v" by auto
    show "py_in p (c # cs)"
    proof (cases u)
      case Nil
      with uv have "startswith (c # cs) p" by (auto simp add: startswith_iff)
      then show ?thesis by simp
    next
      case (Cons a u')
      with uv have "cs = u' @ p @ v" by simp
      then have "py_in p cs" using Cons.IH by blast
      then show ?thesis by simp
    qed
  qed
qed

lemma py_in_append_mid: "py_in p (u @ p @ v)"
  by (auto simp add: py_in_iff)

lemma py_in_suffix: "py_in p (u @ p)"
  using py_in_append_mid [of p u "[]"] by simp



lemma py_in_appendI2: "py_in p s \<Longrightarrow> py_in p (t @ s)"
  by (auto simp add: py_in_iff) (metis append.assoc)

lemma os_path_join_last: "b \<noteq> [] \<Longrightarrow> last (os_path_join a b) = last b"
  by (simp add: os_path_join_def)

lemma creds_path_last: "last (creds_path e mp) = CHR ''t''"
  by (simp add: creds_path_def os_path_join_last)

lemma creds_path_neq:
  "creds_path e mp \<noteq> FSTAB" "creds_path e mp \<noteq> FSTAB @ ''.bak''"
  "FSTAB \<noteq> creds_path e mp" "FSTAB @ ''.bak'' \<noteq> creds_path e mp"
proof -
  have "last FSTAB \<noteq> CHR ''t''" and "last (FSTAB @ ''.bak'') \<noteq> CHR ''t''"
    by (simp_all add: FSTAB_def)
  then show "creds_path e mp \<noteq> FSTAB" "creds_path e mp \<noteq> FSTAB @ ''.bak''"
    "FSTAB \<noteq> creds_path e mp" "FSTAB @ ''.bak'' \<noteq> creds_path e mp"
    using creds_path_last [of e mp] by metis+
qed

lemma creds_path_dirs: "creds_path (e\<lparr>dirs := d\<rparr>) mp = creds_path e mp"
  by (simp add: creds_path_def)

lemma add_mount_success_iff:
  "(fst (add_mount rmt mp fty username password opts e) = (True, MountAdded)) =
     (mkdir_ok e mp \<and> (username \<noteq> [] \<and> password \<noteq> [] \<longrightarrow> can_write e (creds_path e mp)) \<and>
      files e FSTAB \<noteq> None \<and> can_write e (FSTAB @ ''.bak'') \<and> can_write e FSTAB)"
  by (auto simp add: add_mount_def mkdir_p_def handle_credentials_def write_file_def chmod_def
        copy2_def append_file_def creds_path_neq Let_def creds_path_dirs
      split: sum.splits option.splits if_splits prod.splits)


lemma add_mount_files:
  assumes "fst (add_mount rmt mp fty username password opts e) = (True, MountAdded)"
  shows "\<exists>old. files e FSTAB = Some old \<and>
           files (snd (add_mount rmt mp fty username password opts e)) FSTAB =
             Some (old @ fstab_entry (now e) rmt mp fty (entry_options e mp username password opts)) \<and>
           files (snd (add_mount rmt mp fty username password opts e)) (FSTAB @ ''.bak'') = Some old"
  using assms [unfolded add_mount_success_iff]
  by (auto simp add: add_mount_def mkdir_p_def handle_credentials_def write_file_def chmod_def
        copy2_def append_file_def creds_path_neq Let_def creds_path_dirs entry_options_def options_with_credentials_def)







section \<open>The filter loop of \<open>delete_mount\<close>\<close>












section \<open>Lines of a text and the append/delete cycle\<close>






















section \<open>Claims about \<open>delete_mount\<close>\<close>







section \<open>Claims about \<open>get_fstab_mounts\<close>\<close>





section \<open>Claims about \<open>add_mount\<close>\<close>

lemma default_options_netdev: "py_in ''_netdev'' (default_options opts)"
proof -
  have a: "py_in ''_netdev'' ''_netdev,nofail''" by code_simp
  have b: "py_in ''_netdev'' (opts @ '',_netdev,nofail'')"
    using py_in_append_mid [of "''_netdev''" "opts @ '',''" "'',nofail''"] by simp
  show ?thesis using a b by (simp add: default_options_def)
qed

lemma default_options_nofail:
  "\<not> py_in ''_netdev'' opts \<Longrightarrow> py_in ''nofail'' (default_options opts)"
proof -
  have a: "py_in ''nofail'' ''_netdev,nofail''" by code_simp
  have b: "py_in ''nofail'' (opts @ '',_netdev,nofail'')"
    using py_in_suffix [of "''nofail''" "opts @ '',_netdev,''"] by simp
  assume "\<not> py_in ''_netdev'' opts"
  then show ?thesis using a b by (simp add: default_options_def)
qed

lemma default_options_kept:
  "py_in ''_netdev'' opts \<Longrightarrow> default_options opts = opts"
  by (auto simp add: default_options_def)

text \<open>
  C5, as stated, fails: with the options \<open>_netdev\<close> the entry is written with the
  options \<open>_netdev\<close> alone; \<open>nofail\<close> was not in the option string and is not added.
\<close>

theorem add_mount_nofail_counterexample:
  "map options (get_fstab_mounts (snd (add_mount ''//srv/share'' ''/mnt/x'' ''cifs'' [] []
                                       ''_netdev'' (sample_env [] [])))) = [''_netdev''] \<and>
   \<not> py_in ''nofail'' ''_netdev''"
  by code_simp

text \<open>
  C5, amended: a successful \<open>add_mount\<close> appends an entry whose options always contain
  \<open>_netdev\<close>. They are \<open>_netdev,nofail\<close> when the option string (after the credentials
  option was added) is empty, that string followed by \<open>,_netdev,nofail\<close> when it is not
  empty and does not contain \<open>_netdev\<close>, and that string unchanged when it contains
  \<open>_netdev\<close>; so they contain \<open>nofail\<close> whenever it does not contain \<open>_netdev\<close>. On an empty
  mount table, \<open>add_mount\<close> with empty user name, password and options leaves exactly one
  entry, with the options \<open>_netdev,nofail\<close> and no credentials file.
\<close>

theorem add_mount_default_options:
  assumes "fst (add_mount rmt mp fty username password opts e) = (True, MountAdded)"
  shows "(\<exists>old r. files e FSTAB = Some old \<and>
            files (snd (add_mount rmt mp fty username password opts e)) FSTAB =
              Some (old @ fstab_entry (now e) rmt mp fty r) \<and>
            py_in ''_netdev'' r \<and>
            (options_with_credentials e mp username password opts = []
               \<longrightarrow> r = ''_netdev,nofail'') \<and>
            (options_with_credentials e mp username password opts \<noteq> [] \<and>
             \<not> py_in ''_netdev'' (options_with_credentials e mp username password opts)
               \<longrightarrow> r = options_with_credentials e mp username password opts @
                         '',_netdev,nofail'') \<and>
            (\<not> py_in ''_netdev'' (options_with_credentials e mp username password opts)
               \<longrightarrow> py_in ''nofail'' r) \<and>
            (py_in ''_netdev'' (options_with_credentials e mp username password opts)
               \<longrightarrow> r = options_with_credentials e mp username password opts)) \<and>
         get_fstab_mounts (snd (add_mount ''//srv/share'' ''/mnt/x'' ''cifs'' [] [] []
                                  (sample_env [] []))) =
           [\<lparr>remote = ''//srv/share'', mountpoint = ''/mnt/x'', fstype = ''cifs'',
             options = ''_netdev,nofail'', credentials_file = None, is_mounted = False\<rparr>]"
proof
  from add_mount_files [OF assms] obtain old where
    old: "files e FSTAB = Some old"
      "files (snd (add_mount rmt mp fty username password opts e)) FSTAB =
         Some (old @ fstab_entry (now e) rmt mp fty (entry_options e mp username password opts))"
    by blast
  let ?r = "entry_options e mp username password opts"
  let ?o = "options_with_credentials e mp username password opts"
  have "py_in ''_netdev'' ?r"
    by (simp add: entry_options_def default_options_netdev)
  moreover have "?o = [] \<longrightarrow> ?r = ''_netdev,nofail''"
    by (simp add: entry_options_def default_options_def)
  moreover have "?o \<noteq> [] \<and> \<not> py_in ''_netdev'' ?o \<longrightarrow> ?r = ?o @ '',_netdev,nofail''"
    by (simp add: entry_options_def default_options_def)
  moreover have "\<not> py_in ''_netdev'' ?o \<longrightarrow> py_in ''nofail'' ?r"
    by (simp add: entry_options_def default_options_nofail)
  moreover have "py_in ''_netdev'' ?o \<longrightarrow> ?r = ?o"
    by (simp add: entry_options_def default_options_kept)
  ultimately show "\<exists>old r. files e FSTAB = Some old \<and>
            files (snd (add_mount rmt mp fty username password opts e)) FSTAB =
              Some (old @ fstab_entry (now e) rmt mp fty r) \<and>
            py_in ''_netdev'' r \<and>
            (?o = [] \<longrightarrow> r = ''_netdev,nofail'') \<and>
            (?o \<noteq> [] \<and> \<not> py_in ''_netdev'' ?o \<longrightarrow> r = ?o @ '',_netdev,nofail'') \<and>
            (\<not> py_in ''_netdev'' ?o \<longrightarrow> py_in ''nofail'' r) \<and>
            (py_in ''_netdev'' ?o \<longrightarrow> r = ?o)"
    using old by blast
next
  show "get_fstab_mounts (snd (add_mount ''//srv/share'' ''/mnt/x'' ''cifs'' [] [] []
                                  (sample_env [] []))) =
           [\<lparr>remote = ''//srv/share'', mountpoint = ''/mnt/x'', fstype = ''cifs'',
             options = ''_netdev,nofail'', credentials_file = None, is_mounted = False\<rparr>]"
    by code_simp
qed

theorem add_mount_default_options_witness:
  "fst (add_mount ''//srv/share'' ''/mnt/x'' ''cifs'' [] [] ''rw'' (sample_env sample_tab []))
     = (True, MountAdded) \<and>
   (\<exists>old r. files (sample_env sample_tab []) FSTAB = Some old \<and>
      files (snd (add_mount ''//srv/share'' ''/mnt/x'' ''cifs'' [] [] ''rw''
                    (sample_env sample_tab []))) FSTAB =
        Some (old @ fstab_entry (now (sample_env sample_tab [])) ''//srv/share'' ''/mnt/x''
                      ''cifs'' r) \<and>
      r = ''rw,_netdev,nofail'')"
proof -
  have h: "fst (add_mount ''//srv/share'' ''/mnt/x'' ''cifs'' [] [] ''rw''
                  (sample_env sample_tab [])) = (True, MountAdded)"
    by code_simp
  have o: "options_with_credentials (sample_env sample_tab []) ''/mnt/x'' [] [] ''rw'' = ''rw''"
    by (simp add: options_with_credentials_def)
  have n: "\<not> py_in ''_netdev'' ''rw''"
    by code_simp
  from add_mount_default_options [OF h] obtain old r where
    r: "files (sample_env sample_tab []) FSTAB = Some old"
      "files (snd (add_mount ''//srv/share'' ''/mnt/x'' ''cifs'' [] [] ''rw''
                    (sample_env sample_tab []))) FSTAB =
        Some (old @ fstab_entry (now (sample_env sample_tab [])) ''//srv/share'' ''/mnt/x''
                      ''cifs'' r)"
      "options_with_credentials (sample_env sample_tab []) ''/mnt/x'' [] [] ''rw'' \<noteq> [] \<and>
       \<not> py_in ''_netdev''
           (options_with_credentials (sample_env sample_tab []) ''/mnt/x'' [] [] ''rw'')
       \<longrightarrow> r = options_with_credentials (sample_env sample_tab []) ''/mnt/x'' [] [] ''rw'' @
                 '',_netdev,nofail''"
    by blast
  from r(3) o n have "r = ''rw,_netdev,nofail''" by simp
  with r(1,2) h show ?thesis by blast
qed




section \<open>The append/delete cycle\<close>





section \<open>Properties of the parser and of \<open>SambaConfig\<close>\<close>

lemma lower_keys:
  "py_lower ''path'' = ''path''" "py_lower ''comment'' = ''comment''"
  "py_lower ''writable'' = ''writable''" "py_lower ''browseable'' = ''browseable''"
  "py_lower ''guest ok'' = ''guest ok''" "py_lower ''valid users'' = ''valid users''"
  "py_lower ''create mask'' = ''create mask''" "py_lower ''directory mask'' = ''directory mask''"
  "py_lower ''yes'' = ''yes''" "py_lower ''no'' = ''no''"
  by code_simp+

lemma parser_get_section:
  "map_of (cp_sections p) s = Some d \<Longrightarrow> cp_defaults p = [] \<Longrightarrow>
   parser_get p s k fb = (case map_of d (py_lower k) of Some v \<Rightarrow> v | None \<Rightarrow> fb)"
  by (simp add: parser_get_def split: option.splits)

lemma get_flag_spec:
  assumes "map_of (cp_sections p) s = Some d" and "cp_defaults p = []"
    and "map_of d k \<noteq> Some None" and "py_lower k = k" and "py_lower fb = fb"
  shows "get_flag p s k fb = Inr (spec_flag d k (fb = ''yes''))"
  using assms
  by (auto simp add: get_flag_def parser_get_section spec_flag_def split: option.splits)

lemma get_field_spec:
  assumes "map_of (cp_sections p) s = Some d" and "cp_defaults p = []" and "py_lower k = k"
  shows "parser_get p s k (Some fb) = spec_field d k fb"
  using assms by (simp add: parser_get_section spec_field_def split: option.splits)

lemma shares_loop_spec:
  assumes "distinct (map fst (cp_sections p))" and "cp_defaults p = []"
    and "set xs \<subseteq> set (cp_sections p)"
    and "\<forall>s\<in>set xs. py_lower (fst s) \<noteq> ''global'' \<longrightarrow>
           map_of (snd s) ''writable'' \<noteq> Some None \<and>
           map_of (snd s) ''browseable'' \<noteq> Some None \<and>
           map_of (snd s) ''guest ok'' \<noteq> Some None"
  shows "shares_loop p (map fst xs) =
           Inr (map spec_share (filter (\<lambda>s. py_lower (fst s) \<noteq> ''global'') xs))"
  using assms(3,4)
proof (induction xs)
  case Nil
  then show ?case by simp
next
  case (Cons s xs)
  have IH: "shares_loop p (map fst xs) =
           Inr (map spec_share (filter (\<lambda>s. py_lower (fst s) \<noteq> ''global'') xs))"
    using Cons by simp
  show ?case
  proof (cases "py_lower (fst s) = ''global''")
    case True
    then show ?thesis using IH by simp
  next
    case False
    have "(fst s, snd s) \<in> set (cp_sections p)" using Cons.prems(1) by simp
    then have m: "map_of (cp_sections p) (fst s) = Some (snd s)"
      using assms(1) by (rule_tac map_of_is_SomeI) auto
    have nn: "map_of (snd s) ''writable'' \<noteq> Some None"
      "map_of (snd s) ''browseable'' \<noteq> Some None"
      "map_of (snd s) ''guest ok'' \<noteq> Some None"
      using Cons.prems(2) False by simp_all
    have flags:
      "get_flag p (fst s) ''writable'' ''yes'' = Inr (spec_flag (snd s) ''writable'' True)"
      "get_flag p (fst s) ''browseable'' ''yes'' = Inr (spec_flag (snd s) ''browseable'' True)"
      "get_flag p (fst s) ''guest ok'' ''no'' = Inr (spec_flag (snd s) ''guest ok'' False)"
      using get_flag_spec [OF m assms(2) nn(1)] get_flag_spec [OF m assms(2) nn(2)]
        get_flag_spec [OF m assms(2) nn(3)]
      by (simp_all add: lower_keys)
    have fields:
      "parser_get p (fst s) ''path'' (Some []) = spec_field (snd s) ''path'' []"
      "parser_get p (fst s) ''comment'' (Some []) = spec_field (snd s) ''comment'' []"
      "parser_get p (fst s) ''valid users'' (Some []) = spec_field (snd s) ''valid users'' []"
      "parser_get p (fst s) ''create mask'' (Some ''0664'') = spec_field (snd s) ''create mask'' ''0664''"
      "parser_get p (fst s) ''directory mask'' (Some ''0775'') =
         spec_field (snd s) ''directory mask'' ''0775''"
      using get_field_spec [OF m assms(2)] by (simp_all add: lower_keys)
    show ?thesis
      using False IH by (simp add: flags fields spec_share_def)
  qed
qed

lemma save_parser: "parser (fst (snd (save sc e))) = parser sc"
  by (simp add: save_def Let_def split: sum.splits option.splits)

lemma save_config_path: "config_path (fst (snd (save sc e))) = config_path sc"
  by (simp add: save_def Let_def split: sum.splits option.splits)

lemma dict_set_keys: "k \<in> set (map fst kvs) \<Longrightarrow> map fst (dict_set kvs k v) = map fst kvs"
  by (induction kvs) auto

lemma parser_set_sections:
  "parser_set p sect opt v = Inr p' \<Longrightarrow> parser_sections p' = parser_sections p"
proof -
  assume a: "parser_set p sect opt v = Inr p'"
  show ?thesis
  proof (cases "sect = [] \<or> sect = ''DEFAULT''")
    case True
    then show ?thesis using a by (auto simp add: parser_set_def parser_sections_def)
  next
    case False
    then obtain d where d: "map_of (cp_sections p) sect = Some d"
      using a by (auto simp add: parser_set_def split: option.splits)
    then have "(sect, d) \<in> set (cp_sections p)" by (rule map_of_SomeD)
    then have "sect \<in> set (map fst (cp_sections p))" by force
    then have "map fst (dict_set (cp_sections p) sect (dict_set d (py_lower opt) v)) =
                 map fst (cp_sections p)"
      by (rule dict_set_keys)
    moreover have "p' = p\<lparr>cp_sections :=
                            dict_set (cp_sections p) sect (dict_set d (py_lower opt) v)\<rparr>"
      using a False d by (simp add: parser_set_def)
    ultimately show ?thesis by (simp add: parser_sections_def)
  qed
qed

lemma set_options_sections: "parser_sections (fst (set_options p sect kvs)) = parser_sections p"
proof (induction kvs arbitrary: p)
  case Nil
  then show ?case by simp
next
  case (Cons kv kvs)
  show ?case
  proof (cases "parser_set p sect (fst kv) (snd kv)")
    case (Inl x)
    then show ?thesis by simp
  next
    case (Inr p1)
    then show ?thesis using Cons [of p1] parser_set_sections [OF Inr] by simp
  qed
qed

lemma save_section_names: "section_names (fst (snd (save sc e))) = section_names sc"
  by (simp add: section_names_def save_parser)

lemma section_names_error [simp]: "section_names (sc\<lparr>error := x\<rparr>) = section_names sc"
  by (simp add: section_names_def)

lemma add_share_distinct:
  assumes "parser sc = Some p" and "distinct (parser_sections p)"
  shows "distinct (section_names (fst (snd (add_share read_file sc share e))))"
proof -
  have l: "loaded read_file sc e = sc" using assms(1) by (simp add: loaded_def)
  show ?thesis
  proof (cases "has_section p (name share) \<or> name share = ''DEFAULT''")
    case True
    then show ?thesis
      using assms by (auto simp add: add_share_def l add_section_def section_names_def)
  next
    case False
    let ?p1 = "p\<lparr>cp_sections := cp_sections p @ [(name share, [])]\<rparr>"
    have d1: "distinct (parser_sections ?p1)"
      using False assms(2) by (simp add: parser_sections_def has_section_def)
    have "parser_sections (fst (set_options ?p1 (name share) (share_options share))) =
            parser_sections ?p1"
      by (rule set_options_sections)
    with d1 have d2: "distinct (parser_sections (fst (set_options ?p1 (name share)
                                                        (share_options share))))"
      by simp
    show ?thesis
      using False assms(1) d2
      by (cases "snd (set_options ?p1 (name share) (share_options share))")
         (simp_all add: add_share_def l add_section_def Let_def save_section_names,
          simp_all add: section_names_def)
  qed
qed

lemma delete_share_distinct:
  assumes "parser sc = Some p" and "distinct (parser_sections p)"
  shows "distinct (section_names (fst (snd (delete_share read_file sc nm e))))"
proof -
  have l: "loaded read_file sc e = sc" using assms(1) by (simp add: loaded_def)
  have "distinct (parser_sections (remove_section p nm))"
    using assms(2) by (simp add: parser_sections_def remove_section_def distinct_map_filter)
  then show ?thesis
    using assms
    by (cases "has_section p nm")
       (simp_all add: delete_share_def l save_section_names, simp_all add: section_names_def)
qed

lemma save_error: "\<not> fst (save sc e) \<Longrightarrow> \<exists>x. error (fst (snd (save sc e))) = Some (SaveFailed x)"
  by (auto simp add: save_def Let_def split: sum.splits option.splits)

lemma add_share_conflict_iff:
  assumes "parser sc = Some p"
  shows "has_section p (name share) =
           (\<not> fst (add_share read_file sc share e) \<and>
            error (fst (snd (add_share read_file sc share e))) = Some (ShareExists (name share)))"
proof -
  have l: "loaded read_file sc e = sc" using assms(1) by (simp add: loaded_def)
  show ?thesis
  proof (cases "has_section p (name share)")
    case True
    then show ?thesis using assms by (simp add: add_share_def l)
  next
    case False
    show ?thesis
    proof (cases "name share = ''DEFAULT''")
      case True
      then show ?thesis using False assms by (simp add: add_share_def l add_section_def)
    next
      case nd: False
      let ?r = "set_options (p\<lparr>cp_sections := cp_sections p @ [(name share, [])]\<rparr>)
                  (name share) (share_options share)"
      show ?thesis
      proof (cases "snd ?r")
        case None
        let ?sc2 = "sc\<lparr>parser := Some (fst ?r)\<rparr>"
        have a: "add_share read_file sc share e = save ?sc2 e"
          using False nd assms None by (simp add: add_share_def l add_section_def Let_def)
        show ?thesis
        proof (cases "fst (save ?sc2 e)")
          case True
          then show ?thesis using False a by simp
        next
          case f: False
          from save_error [OF f] obtain x where
            "error (fst (snd (save ?sc2 e))) = Some (SaveFailed x)" by blast
          then show ?thesis using False a by simp
        qed
      next
        case (Some x)
        then show ?thesis
          using False nd assms by (simp add: add_share_def l add_section_def Let_def)
      qed
    qed
  qed
qed

section \<open>Claims about \<open>add_share\<close> and \<open>get_shares\<close>\<close>

text \<open>
  C4: when a section with the name of the share exists in the loaded configuration,
  \<open>add_share\<close> returns \<open>False\<close>, records the error that the share already exists, and the
  environment is the one before the call: the configuration file keeps its text and not
  even a backup is made.
\<close>

theorem add_share_existing_name:
  assumes "parser (loaded read_file sc e) = Some p" and "has_section p (name share)"
  shows "add_share read_file sc share e =
           (False, (loaded read_file sc e)\<lparr>error := Some (ShareExists (name share))\<rparr>, e)"
  using assms by (simp add: add_share_def)

theorem add_share_existing_name_witness:
  "has_section sample_parser ''media'' \<and>
   add_share no_read sample_config (new_share ''media'' ''/srv/other'') (config_env ''[global]'') =
     (False, sample_config\<lparr>error := Some (ShareExists ''media'')\<rparr>, config_env ''[global]'')"
proof -
  have h1: "parser (loaded no_read sample_config (config_env ''[global]'')) = Some sample_parser"
    by (simp add: loaded_def sample_config_def)
  have h2: "has_section sample_parser (name (new_share ''media'' ''/srv/other''))"
    by (simp add: has_section_def sample_parser_def new_share_def)
  have l: "loaded no_read sample_config (config_env ''[global]'') = sample_config"
    by (simp add: loaded_def sample_config_def)
  from add_share_existing_name [OF h1 h2] h2 l show ?thesis
    by (simp add: new_share_def)
qed


text \<open>
  C7, as stated, fails: with \<open>create mask\<close> given in the \<open>DEFAULT\<close> section and missing
  from the section of the share, \<open>get_shares\<close> returns the value of the \<open>DEFAULT\<close>
  section, not the documented default \<open>0664\<close>.
\<close>

theorem get_shares_counterexample:
  "fst (get_shares no_read (sample_config\<lparr>parser := Some defaults_parser\<rparr>) (config_env []))
     \<noteq> Inr (spec_list_shares defaults_parser)"
  by code_simp

text \<open>
  C7, amended: for a loaded configuration whose \<open>DEFAULT\<close> section is empty and in which
  no listed section has \<open>writable\<close>, \<open>browseable\<close> or \<open>guest ok\<close> without a value,
  \<open>get_shares\<close> returns exactly the sections whose lowered name is not \<open>global\<close>, in
  their order, each with the documented default for every field missing from it. And on
  a configuration holding only the section \<open>global\<close>, after \<open>add_share\<close> of the share
  \<open>docs\<close> with path \<open>/srv/docs\<close>, \<open>get_shares\<close> on the same object returns that one
  share, writable and with create mask \<open>0664\<close>.
\<close>

theorem get_shares_lists:
  assumes "parser (loaded read_file sc e) = Some p"
    and "distinct (parser_sections p)" and "cp_defaults p = []"
    and "\<forall>s\<in>set (cp_sections p). py_lower (fst s) \<noteq> ''global'' \<longrightarrow>
           map_of (snd s) ''writable'' \<noteq> Some None \<and>
           map_of (snd s) ''browseable'' \<noteq> Some None \<and>
           map_of (snd s) ''guest ok'' \<noteq> Some None"
  shows "fst (get_shares read_file sc e) = Inr (spec_list_shares p) \<and>
         fst (get_shares read_file
                (fst (snd (add_share read_file
                             \<lparr>config_path = cp,
                               parser = Some \<lparr>cp_defaults = [], cp_sections = [(''global'', g)]\<rparr>,
                               error = None\<rparr>
                             (new_share ''docs'' ''/srv/docs'') e1)))
                e2) =
           Inr [new_share ''docs'' ''/srv/docs'']"
proof
  show "fst (get_shares read_file sc e) = Inr (spec_list_shares p)"
    using assms(1) shares_loop_spec [OF assms(2) [unfolded parser_sections_def] assms(3) _ assms(4)]
    by (simp add: get_shares_def spec_list_shares_def parser_sections_def)
next
  let ?sc0 = "\<lparr>config_path = cp,
                parser = Some \<lparr>cp_defaults = [], cp_sections = [(''global'', g)]\<rparr>,
                error = None\<rparr>"
  let ?p2 = "\<lparr>cp_defaults = [],
               cp_sections = [(''global'', g),
                              (''docs'', share_options (new_share ''docs'' ''/srv/docs''))]\<rparr>"
  have so: "share_options (new_share ''docs'' ''/srv/docs'') =
       [(''path'', Some ''/srv/docs''), (''writable'', Some ''yes''),
        (''browseable'', Some ''yes''), (''guest ok'', Some ''no''),
        (''create mask'', Some ''0664''), (''directory mask'', Some ''0775'')]"
    by (simp add: share_options_def new_share_def yes_no_def truthy_def)
  have "parser (fst (snd (add_share read_file ?sc0 (new_share ''docs'' ''/srv/docs'') e1))) =
          Some ?p2"
    unfolding so
    by (simp add: add_share_def loaded_def has_section_def add_section_def so save_parser
          new_share_def parser_set_def lower_keys Let_def
          share_options_def yes_no_def truthy_def)
  then have pp: "parser (fst (snd (add_share read_file ?sc0 (new_share ''docs'' ''/srv/docs'') e1)))
                   = Some ?p2" .
  have l: "py_lower ''docs'' \<noteq> ''global''" "py_lower ''global'' = ''global''"
    by code_simp+
  have "shares_loop ?p2 (map fst (cp_sections ?p2)) =
          Inr (map spec_share (filter (\<lambda>s. py_lower (fst s) \<noteq> ''global'') (cp_sections ?p2)))"
    by (rule shares_loop_spec) (simp_all add: so l)
  also have "\<dots> = Inr [new_share ''docs'' ''/srv/docs'']"
    by (simp add: l so spec_share_def spec_field_def spec_flag_def lower_keys)
       (simp add: new_share_def)
  finally show "fst (get_shares read_file
                (fst (snd (add_share read_file ?sc0 (new_share ''docs'' ''/srv/docs'') e1))) e2) =
           Inr [new_share ''docs'' ''/srv/docs'']"
    using pp by (simp add: get_shares_def loaded_def parser_sections_def)
qed


theorem get_shares_lists_witness:
  "parser (loaded no_read sample_config (config_env [])) = Some sample_parser \<and>
   cp_defaults sample_parser = [] \<and>
   fst (get_shares no_read sample_config (config_env [])) = Inr (spec_list_shares sample_parser) \<and>
   spec_list_shares sample_parser =
     [\<lparr>name = ''media'', path = Some ''/srv/media'', comment = Some [], writable = False,
       browseable = True, guest_ok = False, valid_users = Some [], create_mask = Some ''0664'',
       directory_mask = Some ''0775''\<rparr>]"
proof -
  have h1: "parser (loaded no_read sample_config (config_env [])) = Some sample_parser"
    by (simp add: loaded_def sample_config_def)
  have h2: "distinct (parser_sections sample_parser)"
    by (simp add: parser_sections_def sample_parser_def)
  have h3: "cp_defaults sample_parser = []"
    by (simp add: sample_parser_def)
  have h4: "\<forall>s\<in>set (cp_sections sample_parser). py_lower (fst s) \<noteq> ''global'' \<longrightarrow>
           map_of (snd s) ''writable'' \<noteq> Some None \<and>
           map_of (snd s) ''browseable'' \<noteq> Some None \<and>
           map_of (snd s) ''guest ok'' \<noteq> Some None"
    by (simp add: sample_parser_def)
  have v: "spec_list_shares sample_parser =
     [\<lparr>name = ''media'', path = Some ''/srv/media'', comment = Some [], writable = False,
       browseable = True, guest_ok = False, valid_users = Some [], create_mask = Some ''0664'',
       directory_mask = Some ''0775''\<rparr>]"
    by code_simp
  from get_shares_lists [OF h1 h2 h3 h4] h1 h3 v show ?thesis
    by blast
qed

text \<open>
  C9, as stated, fails: beside the section \<open>global\<close>, \<open>add_share\<close> accepts the name
  \<open>Global\<close>, which \<open>get_shares\<close> takes for the global section.
\<close>

theorem add_share_global_counterexample:
  "has_section sample_parser ''global'' \<and> py_lower ''Global'' = ''global'' \<and>
   fst (add_share no_read sample_config (new_share ''Global'' ''/srv/g'') (config_env ''[global]''))"
  by code_simp

text \<open>
  C9, amended: \<open>add_share\<close> and \<open>delete_share\<close> keep the section names of a loaded
  configuration pairwise distinct, and \<open>add_share\<close> rejects a name as already existing
  exactly when a section with that very name exists; no name is rejected for naming the
  global section.
\<close>

theorem share_names_stay_unique:
  assumes "parser sc = Some p" and "distinct (parser_sections p)"
  shows "distinct (section_names (fst (snd (add_share read_file sc share e)))) \<and>
         distinct (section_names (fst (snd (delete_share read_file sc nm e)))) \<and>
         has_section p (name share) =
           (\<not> fst (add_share read_file sc share e) \<and>
            error (fst (snd (add_share read_file sc share e))) = Some (ShareExists (name share)))"
  using add_share_distinct [OF assms] delete_share_distinct [OF assms]
    add_share_conflict_iff [OF assms(1)]
  by blast

theorem share_names_stay_unique_witness:
  "parser sample_config = Some sample_parser \<and>
   distinct (section_names (fst (snd (add_share no_read sample_config
                                        (new_share ''docs'' ''/srv/docs'') (config_env []))))) \<and>
   distinct (section_names (fst (snd (delete_share no_read sample_config ''media''
                                        (config_env [])))))"
proof -
  have h1: "parser sample_config = Some sample_parser"
    by (simp add: sample_config_def)
  have h2: "distinct (parser_sections sample_parser)"
    by (simp add: parser_sections_def sample_parser_def)
  from share_names_stay_unique [OF h1 h2] h1 show ?thesis
    by blast
qed

end
